theory Spec2Isabelle
  imports Main
begin

section \<open>Python values and exceptions\<close>

text \<open>
  The program is dynamically typed: \<open>from_list\<close> and \<open>draw\<close> inspect the runtime type of
  what they are given, and the four fields of a \<open>QuadTree\<close> object hold whatever value the
  constructor received. The values that occur are \<open>None\<close>, booleans, integers, strings,
  lists and \<open>QuadTree\<close> objects. The class \<open>QuadTree\<close> has the four fields of
  \<open>__init__\<close>: \<open>hg\<close> (top left), \<open>hd\<close> (top right), \<open>bd\<close> (bottom right) and \<open>bg\<close>
  (bottom left); the second one is named \<open>hd'\<close> here.
\<close>

datatype pyval =
    PyNone
  | PyBool bool
  | PyInt int
  | PyStr string
  | PyList "pyval list"
  | PyObj quadtree
and quadtree =
    QuadTree (hg: pyval) (hd': pyval) (bd: pyval) (bg: pyval)

datatype py_error = IndexError | TypeError | ValueError | OSError | SyntaxError

text \<open>\<open>isinstance(v, list)\<close>\<close>

fun is_list :: "pyval \<Rightarrow> bool" where
  "is_list (PyList _) = True"
| "is_list _ = False"

section \<open>\<open>QuadTree.depth\<close>\<close>

text \<open>
  \<open>max(depths)\<close> on a list of integers. Python raises on the empty list; \<open>depth\<close> only
  calls it on a list that starts with \<open>0\<close>, so the empty case has no equation.
\<close>

fun py_max :: "int list \<Rightarrow> int" where
  "py_max (x # xs) = fold max xs x"

text \<open>
  The list \<open>depths\<close> starts as \<open>[0]\<close>; each of the four fields that is a \<open>QuadTree\<close>
  appends its own depth, in the order \<open>hg\<close>, \<open>hd\<close>, \<open>bd\<close>, \<open>bg\<close>; the result is
  \<open>1 + max(depths)\<close>.
\<close>

fun depth :: "quadtree \<Rightarrow> int" where
  "depth (QuadTree a b c d) =
     (let depths = [0];
          depths = (case a of PyObj q \<Rightarrow> depths @ [depth q] | _ \<Rightarrow> depths);
          depths = (case b of PyObj q \<Rightarrow> depths @ [depth q] | _ \<Rightarrow> depths);
          depths = (case c of PyObj q \<Rightarrow> depths @ [depth q] | _ \<Rightarrow> depths);
          depths = (case d of PyObj q \<Rightarrow> depths @ [depth q] | _ \<Rightarrow> depths)
      in 1 + py_max depths)"

section \<open>\<open>QuadTree.from_list\<close>\<close>

text \<open>
  The list branch unpacks a generator into four names. Unpacking draws four items, one
  after the other; an item whose computation raises ends the unpacking with that
  exception; a generator that is exhausted early raises \<open>ValueError\<close>. After the fourth
  item one more is requested, and \<open>ValueError\<close> is raised when there is one. The generator
  is the list of the results of its items, of which only the requested ones are looked at.
\<close>

fun pull :: "nat \<Rightarrow> (py_error + 'a) list \<Rightarrow> py_error + ('a list \<times> (py_error + 'a) list)" where
  "pull 0 g = Inr ([], g)"
| "pull (Suc n) [] = Inr ([], [])"
| "pull (Suc n) (Inl e # g) = Inl e"
| "pull (Suc n) (Inr v # g) =
     (case pull n g of Inl e \<Rightarrow> Inl e | Inr (vs, g') \<Rightarrow> Inr (v # vs, g'))"

definition unpack4 :: "(py_error + 'a) list \<Rightarrow> py_error + ('a \<times> 'a \<times> 'a \<times> 'a)" where
  "unpack4 g =
     (case pull 4 g of
        Inl e \<Rightarrow> Inl e
      | Inr (vs, g') \<Rightarrow>
          (case vs of
             [a, b, c, d] \<Rightarrow>
               (case g' of
                  [] \<Rightarrow> Inr (a, b, c, d)
                | Inl e # _ \<Rightarrow> Inl e
                | Inr _ # _ \<Rightarrow> Inl ValueError)
           | _ \<Rightarrow> Inl ValueError))"

text \<open>
  \<open>QuadTree(*data)\<close>: the constructor takes exactly four positional arguments and raises
  \<open>TypeError\<close> for any other number.
\<close>

definition new_QuadTree :: "pyval list \<Rightarrow> py_error + pyval" where
  "new_QuadTree args =
     (case args of
        [a, b, c, d] \<Rightarrow> Inr (PyObj (QuadTree a b c d))
      | _ \<Rightarrow> Inl TypeError)"

text \<open>
  \<open>from_list\<close> has one type test on \<open>data\<close> and no \<open>else\<close>: a value that is not a list
  falls through and the function returns \<open>None\<close>. For a list, \<open>data[0]\<close> is read first
  (\<open>IndexError\<close> on the empty list) and its type alone selects the branch.
\<close>

fun from_list :: "pyval \<Rightarrow> py_error + pyval" where
  "from_list (PyList data) =
     (case data of
        [] \<Rightarrow> Inl IndexError
      | d0 # _ \<Rightarrow>
          if is_list d0
          then (case unpack4 (map from_list data) of
                  Inl e \<Rightarrow> Inl e
                | Inr (a, b, c, d) \<Rightarrow> Inr (PyObj (QuadTree a b c d)))
          else new_QuadTree data)"
| "from_list PyNone = Inr PyNone"
| "from_list (PyBool _) = Inr PyNone"
| "from_list (PyInt _) = Inr PyNone"
| "from_list (PyStr _) = Inr PyNone"
| "from_list (PyObj _) = Inr PyNone"

section \<open>\<open>TkQuadTree.draw\<close>\<close>

text \<open>
  The canvas is the list of the rectangles created so far, oldest first;
  \<open>create_rectangle(x1, y1, x2, y2, fill=...)\<close> adds one (the outline is always black).
  On a Tk canvas \<open>x\<close> grows to the right and \<open>y\<close> grows downwards.
\<close>

record rectangle =
  rect_x1 :: int
  rect_y1 :: int
  rect_x2 :: int
  rect_y2 :: int
  rect_fill :: string

type_synonym canvas = "rectangle list"

definition create_rectangle :: "int \<Rightarrow> int \<Rightarrow> int \<Rightarrow> int \<Rightarrow> string \<Rightarrow> canvas \<Rightarrow> canvas" where
  "create_rectangle a b c d f cv =
     cv @ [\<lparr>rect_x1 = a, rect_y1 = b, rect_x2 = c, rect_y2 = d, rect_fill = f\<rparr>]"

text \<open>
  A statement that follows another one runs only when the first one raised nothing; the
  canvas keeps what was drawn before an exception.
\<close>

definition and_then ::
  "py_error option \<times> canvas \<Rightarrow> (canvas \<Rightarrow> py_error option \<times> canvas) \<Rightarrow> py_error option \<times> canvas" where
  "and_then r k = (case r of (Some e, cv) \<Rightarrow> (Some e, cv) | (None, cv) \<Rightarrow> k cv)"

text \<open>
  \<open>draw(x, y, size, node)\<close>. A list is drawn through \<open>node[0]\<close>, \<open>node[1]\<close>, \<open>node[2]\<close>
  and \<open>node[3]\<close>, in this order, each in a square of half the size (\<open>size // 2\<close>); a list
  shorter than four raises \<open>IndexError\<close> at the first missing index, and elements after the
  fourth are not looked at. An integer draws one rectangle; \<open>bool\<close> is a subclass of \<open>int\<close>
  in Python and \<open>False == 0\<close>. Any other value draws nothing.
\<close>

fun draw :: "int \<Rightarrow> int \<Rightarrow> int \<Rightarrow> pyval \<Rightarrow> canvas \<Rightarrow> py_error option \<times> canvas" where
  "draw x y size' (PyList []) cv = (Some IndexError, cv)"
| "draw x y size' (PyList [n0]) cv =
     (let half_size = size' div 2 in
      and_then (draw x y half_size n0 cv) (\<lambda>cv.
      (Some IndexError, cv)))"
| "draw x y size' (PyList [n0, n1]) cv =
     (let half_size = size' div 2 in
      and_then (draw x y half_size n0 cv) (\<lambda>cv.
      and_then (draw (x + half_size) y half_size n1 cv) (\<lambda>cv.
      (Some IndexError, cv))))"
| "draw x y size' (PyList [n0, n1, n2]) cv =
     (let half_size = size' div 2 in
      and_then (draw x y half_size n0 cv) (\<lambda>cv.
      and_then (draw (x + half_size) y half_size n1 cv) (\<lambda>cv.
      and_then (draw x (y + half_size) half_size n2 cv) (\<lambda>cv.
      (Some IndexError, cv)))))"
| "draw x y size' (PyList (n0 # n1 # n2 # n3 # rest)) cv =
     (let half_size = size' div 2 in
      and_then (draw x y half_size n0 cv) (\<lambda>cv.
      and_then (draw (x + half_size) y half_size n1 cv) (\<lambda>cv.
      and_then (draw x (y + half_size) half_size n2 cv) (\<lambda>cv.
      draw (x + half_size) (y + half_size) half_size n3 cv))))"
| "draw x y size' (PyInt node) cv =
     (let fill_color = (if node = 0 then ''lightgrey'' else ''black'')
      in (None, create_rectangle x y (x + size') (y + size') fill_color cv))"
| "draw x y size' (PyBool node) cv =
     (let fill_color = (if \<not> node then ''lightgrey'' else ''black'')
      in (None, create_rectangle x y (x + size') (y + size') fill_color cv))"
| "draw x y size' PyNone cv = (None, cv)"
| "draw x y size' (PyStr _) cv = (None, cv)"
| "draw x y size' (PyObj _) cv = (None, cv)"

text \<open>\<open>TkQuadTree.__init__\<close> draws \<open>data\<close> on an empty canvas of 400 by 400.\<close>

definition TkQuadTree_init :: "pyval \<Rightarrow> py_error option \<times> canvas" where
  "TkQuadTree_init data = draw 0 0 400 data []"

section \<open>\<open>QuadTree.from_file\<close>\<close>

text \<open>
  What \<open>from_file\<close> takes from its surroundings: the path of the module (\<open>__file__\<close>),
  \<open>os.path.abspath\<close> and \<open>os.path.dirname\<close> (they depend on the working directory), the
  file system as the function that opens a path and reads all of it, and \<open>eval\<close>.
\<close>

record env =
  module_file :: string
  abspath :: "string \<Rightarrow> string"
  dirname :: "string \<Rightarrow> string"
  open_read :: "string \<Rightarrow> py_error + string"
  py_eval :: "string \<Rightarrow> py_error + pyval"

text \<open>\<open>os.path.join(a, *p)\<close> of \<open>posixpath\<close>.\<close>

fun os_path_join :: "string \<Rightarrow> string list \<Rightarrow> string" where
  "os_path_join path [] = path"
| "os_path_join path (b # p) =
     os_path_join
       (if b \<noteq> [] \<and> hd b = CHR ''/'' then b
        else if path = [] \<or> last path = CHR ''/'' then path @ b
        else path @ ''/'' @ b) p"

text \<open>
  The result comes with the list of the paths that were opened. The parameter
  \<open>filename\<close> is assigned a constant before its first use.
\<close>

definition from_file :: "env \<Rightarrow> string \<Rightarrow> (py_error + pyval) \<times> string list" where
  "from_file E filename =
     (let file_path = os_path_join (dirname E (abspath E (module_file E))) [];
          parent_directory = abspath E (os_path_join file_path [''..'']);
          filename = ''../files/quadtree-easy.txt'';
          txt_file = os_path_join parent_directory [''files'', filename]
      in (case open_read E txt_file of
            Inl e \<Rightarrow> Inl e
          | Inr contents \<Rightarrow>
              (case py_eval E contents of
                 Inl e \<Rightarrow> Inl e
               | Inr data \<Rightarrow> from_list data),
          [txt_file]))"

section \<open>Nested sequences\<close>

text \<open>
  A leaf of the serialized form is the integer \<open>0\<close> or \<open>1\<close>. A well-formed nested
  sequence is a list of exactly four elements, each a leaf or a well-formed nested
  sequence.
\<close>

definition leaf01 :: "pyval \<Rightarrow> bool" where
  "leaf01 v = (v = PyInt 0 \<or> v = PyInt 1)"

fun wf_seq :: "pyval \<Rightarrow> bool" where
  "wf_seq (PyList xs) = (length xs = 4 \<and> list_all (\<lambda>x. leaf01 x \<or> wf_seq x) xs)"
| "wf_seq _ = False"

text \<open>
  The depth of a nested sequence by the rule of the specification: a leaf alone has
  depth 1, a group has depth 1 + the maximum of the depths of its elements.
\<close>

fun spec_depth :: "pyval \<Rightarrow> int" where
  "spec_depth (PyList xs) = 1 + fold max (map spec_depth xs) 0"
| "spec_depth _ = 1"

text \<open>
  No group that starts with a scalar holds a list: the test of \<open>data[0]\<close> then speaks for
  the whole group.
\<close>

fun scalar_first_flat :: "pyval \<Rightarrow> bool" where
  "scalar_first_flat (PyList xs) =
     ((case xs of [] \<Rightarrow> True | x0 # _ \<Rightarrow> is_list x0 \<or> list_all (\<lambda>x. \<not> is_list x) xs)
      \<and> list_all scalar_first_flat xs)"
| "scalar_first_flat _ = True"


text \<open>Some group, at any level, has fewer or more than four elements.\<close>

fun has_bad_group :: "pyval \<Rightarrow> bool" where
  "has_bad_group (PyList xs) = (length xs \<noteq> 4 \<or> list_ex has_bad_group xs)"
| "has_bad_group _ = False"

text \<open>
  Some group that \<open>from_list\<close> reaches has fewer or more than four elements: the input
  itself, or, when the input starts with a list, a group reached in one of its elements.
  The elements of a group that starts with a scalar are not reached: they are stored as
  they are.
\<close>

fun reached_bad :: "pyval \<Rightarrow> bool" where
  "reached_bad (PyList xs) =
     (length xs \<noteq> 4 \<or>
      (case xs of [] \<Rightarrow> False | x0 # _ \<Rightarrow> is_list x0 \<and> list_ex reached_bad xs))"
| "reached_bad _ = False"


text \<open>
  The conforming example of the specification,
  \<open>[[1,0,0,1],[0,0,1,0],[1,1,0,0],[0,1,1,0]]\<close>.
\<close>

definition spec_example :: pyval where
  "spec_example =
     PyList [PyList [PyInt 1, PyInt 0, PyInt 0, PyInt 1],
             PyList [PyInt 0, PyInt 0, PyInt 1, PyInt 0],
             PyList [PyInt 1, PyInt 1, PyInt 0, PyInt 0],
             PyList [PyInt 0, PyInt 1, PyInt 1, PyInt 0]]"

section \<open>Auxiliary functions\<close>

text \<open>
  What a field contributes to the list \<open>depths\<close>, and the same as a number (\<open>0\<close> for a
  field that is not a \<open>QuadTree\<close>). They are used in the proofs about \<open>depth\<close> only.
\<close>

fun child_depths :: "pyval \<Rightarrow> int list" where
  "child_depths (PyObj q) = [depth q]"
| "child_depths _ = []"

fun child_depth :: "pyval \<Rightarrow> int" where
  "child_depth (PyObj q) = depth q"
| "child_depth _ = 0"

section \<open>Unpacking a generator\<close>

lemma pull_Inr: "pull n g = Inr (vs, g') \<Longrightarrow> g' = drop n g \<and> map Inr vs = take n g"
  by (induction n g arbitrary: vs g' rule: pull.induct) (auto split: sum.splits)

lemma pull_Inl: "pull n g = Inl e \<Longrightarrow> Inl e \<in> set g"
  by (induction n g rule: pull.induct) (auto split: sum.splits)

text \<open>Unpacking succeeds exactly on four items that all computed a value.\<close>

lemma unpack4_Inr_iff: "unpack4 g = Inr (a, b, c, d) \<longleftrightarrow> g = [Inr a, Inr b, Inr c, Inr d]"
proof
  assume "g = [Inr a, Inr b, Inr c, Inr d]"
  then show "unpack4 g = Inr (a, b, c, d)"
    by (simp add: unpack4_def numeral_eq_Suc)
next
  assume h: "unpack4 g = Inr (a, b, c, d)"
  then obtain vs g' where p: "pull 4 g = Inr (vs, g')"
    by (auto simp: unpack4_def split: sum.splits)
  with h have v: "vs = [a, b, c, d]" "g' = []"
    by (auto simp: unpack4_def split: sum.splits list.splits)
  from pull_Inr [OF p] v have "drop 4 g = []" "take 4 g = [Inr a, Inr b, Inr c, Inr d]"
    by simp_all
  with append_take_drop_id [of 4 g] show "g = [Inr a, Inr b, Inr c, Inr d]"
    by simp
qed

text \<open>An exception of the unpacking is \<open>ValueError\<close> or comes from one of the items.\<close>

lemma unpack4_Inl: "unpack4 g = Inl e \<Longrightarrow> e = ValueError \<or> Inl e \<in> set g"
proof (cases "pull 4 g")
  case (Inl e')
  assume "unpack4 g = Inl e"
  with Inl have "e' = e" by (simp add: unpack4_def)
  with Inl show ?thesis using pull_Inl by blast
next
  case (Inr p)
  assume h: "unpack4 g = Inl e"
  obtain vs g' where p: "p = (vs, g')" by (cases p)
  from pull_Inr [of 4 g vs g'] Inr p have g': "g' = drop 4 g" by simp
  from h Inr p have "e = ValueError \<or> Inl e \<in> set g'"
    by (auto simp: unpack4_def split: list.splits sum.splits)
  with g' show ?thesis by (auto dest: in_set_dropD)
qed

section \<open>The two branches of \<open>from_list\<close>\<close>

lemma len4: "length xs = 4 \<Longrightarrow> \<exists>a b c d. xs = [a, b, c, d]"
  by (auto simp: length_Suc_conv numeral_eq_Suc)

lemma from_list_list_first:
  "is_list a \<Longrightarrow> from_list (PyList [a, b, c, d]) =
     (case from_list a of Inl e \<Rightarrow> Inl e | Inr ta \<Rightarrow>
       (case from_list b of Inl e \<Rightarrow> Inl e | Inr tb \<Rightarrow>
         (case from_list c of Inl e \<Rightarrow> Inl e | Inr tc \<Rightarrow>
           (case from_list d of Inl e \<Rightarrow> Inl e | Inr td \<Rightarrow>
              Inr (PyObj (QuadTree ta tb tc td))))))"
  by (simp add: unpack4_def numeral_eq_Suc split: sum.splits)

lemma from_list_scalar_first:
  "\<not> is_list a \<Longrightarrow> from_list (PyList [a, b, c, d]) = Inr (PyObj (QuadTree a b c d))"
  by (simp add: new_QuadTree_def)

lemma from_list_not_list: "\<not> is_list v \<Longrightarrow> from_list v = Inr PyNone"
  by (cases v) simp_all

lemma from_list_Inr_length:
  assumes h: "from_list (PyList xs) = Inr t"
  shows "length xs = 4"
proof (cases xs)
  case Nil
  with h show ?thesis by simp
next
  case (Cons x0 rest)
  show ?thesis
  proof (cases "is_list x0")
    case True
    with h Cons obtain a b c d where "unpack4 (map from_list xs) = Inr (a, b, c, d)"
      by (auto split: sum.splits)
    then have "map from_list xs = [Inr a, Inr b, Inr c, Inr d]"
      by (simp add: unpack4_Inr_iff)
    then have "length (map from_list xs) = 4" by simp
    then show ?thesis by simp
  next
    case False
    with h Cons show ?thesis
      by (auto simp: new_QuadTree_def split: list.splits)
  qed
qed

text \<open>The only exceptions of \<open>from_list\<close> are the three built-in ones of its branches.\<close>

lemma from_list_error_kinds:
  "from_list S = Inl e \<Longrightarrow> e = IndexError \<or> e = TypeError \<or> e = ValueError"
proof (induction S rule: from_list.induct)
  case (1 data)
  show ?case
  proof (cases data)
    case Nil
    with "1.prems" show ?thesis by simp
  next
    case (Cons d0 rest)
    show ?thesis
    proof (cases "is_list d0")
      case True
      with "1.prems" Cons have "unpack4 (map from_list data) = Inl e"
        by (auto split: sum.splits)
      then have "e = ValueError \<or> Inl e \<in> set (map from_list data)"
        by (rule unpack4_Inl)
      then show ?thesis
      proof
        assume "e = ValueError"
        then show ?thesis by simp
      next
        assume "Inl e \<in> set (map from_list data)"
        then obtain x where "x \<in> set data" "from_list x = Inl e" by auto
        then show ?thesis using "1.IH" [OF Cons True] by blast
      qed
    next
      case False
      with "1.prems" Cons show ?thesis
        by (auto simp: new_QuadTree_def split: list.splits)
    qed
  qed
qed simp_all

declare from_list.simps(1) [simp del]

text \<open>
  \<open>from_list\<close> raises exactly when it reaches a group of the wrong length; on every other
  input it returns: \<open>None\<close> for a value that is not a list, a node for a list.
\<close>

lemma from_list_raises_iff: "(\<exists>e. from_list S = Inl e) \<longleftrightarrow> reached_bad S"
proof (induction S rule: from_list.induct)
  case (1 data)
  show ?case
  proof (cases "length data = 4")
    case False
    have "from_list (PyList data) \<noteq> Inr t" for t
      using from_list_Inr_length False by blast
    then have "\<exists>e. from_list (PyList data) = Inl e"
      by (cases "from_list (PyList data)") auto
    with False show ?thesis by simp
  next
    case True
    then obtain a b c d where data: "data = [a, b, c, d]" using len4 by blast
    show ?thesis
    proof (cases "is_list a")
      case la: True
      have IH: "(\<exists>e. from_list x = Inl e) \<longleftrightarrow> reached_bad x" if "x \<in> set data" for x
        using "1.IH" [OF data la that] .
      have "(\<exists>e. from_list (PyList data) = Inl e) \<longleftrightarrow>
            (\<exists>e. from_list a = Inl e) \<or> (\<exists>e. from_list b = Inl e) \<or>
            (\<exists>e. from_list c = Inl e) \<or> (\<exists>e. from_list d = Inl e)"
        unfolding data by (auto simp: from_list_list_first [OF la] split: sum.splits)
      also have "\<dots> \<longleftrightarrow> reached_bad a \<or> reached_bad b \<or> reached_bad c \<or> reached_bad d"
        using IH [of a] IH [of b] IH [of c] IH [of d] unfolding data by simp
      also have "\<dots> \<longleftrightarrow> reached_bad (PyList data)"
        unfolding data using la by simp
      finally show ?thesis .
    next
      case False
      then show ?thesis unfolding data by (simp add: from_list_scalar_first)
    qed
  qed
qed simp_all

lemma from_list_returns:
  assumes "\<not> reached_bad S"
  shows "\<exists>t. from_list S = Inr t \<and> (is_list S \<longrightarrow> (\<exists>q. t = PyObj q))"
proof (cases S)
  case (PyList data)
  from assms from_list_raises_iff [of S] obtain t where t: "from_list S = Inr t"
    by (cases "from_list S") auto
  with PyList have "length data = 4" using from_list_Inr_length by blast
  then obtain a b c d where data: "data = [a, b, c, d]" using len4 by blast
  have "\<exists>q. t = PyObj q"
  proof (cases "is_list a")
    case True
    with t show ?thesis unfolding PyList data
      by (auto simp: from_list_list_first split: sum.splits)
  next
    case False
    with t show ?thesis unfolding PyList data
      by (auto simp: from_list_scalar_first)
  qed
  with t show ?thesis by blast
qed simp_all

text \<open>A group that is reached is a group of the input.\<close>

lemma reached_bad_has_bad_group: "reached_bad S \<Longrightarrow> has_bad_group S"
proof (induction S rule: has_bad_group.induct)
  case (1 xs)
  show ?case
  proof (cases "length xs = 4")
    case False
    then show ?thesis by simp
  next
    case True
    with "1.prems" obtain x where "x \<in> set xs" "reached_bad x"
      by (auto simp: list_ex_iff split: list.splits)
    with "1.IH" have "x \<in> set xs" "has_bad_group x" by blast+
    then show ?thesis by (auto simp: list_ex_iff)
  qed
qed simp_all

section \<open>The depth as a maximum\<close>

lemma append_child_depths:
  "(case v of PyObj q \<Rightarrow> depths @ [depth q] | _ \<Rightarrow> depths) = depths @ child_depths v"
  by (cases v) simp_all

lemma depth_unfold:
  "depth (QuadTree a b c d) =
     1 + fold max (child_depths a @ child_depths b @ child_depths c @ child_depths d) 0"
  by (simp add: append_child_depths Let_def del: fold_append)

declare depth.simps [simp del]

lemma fold_max_ge: "(m::int) \<le> fold max xs m"
proof (induction xs arbitrary: m)
  case Nil
  show ?case by simp
next
  case (Cons x xs)
  have "m \<le> max x m" by simp
  also have "\<dots> \<le> fold max xs (max x m)" by (rule Cons.IH)
  finally show ?case by simp
qed

lemma depth_ge_1: "1 \<le> depth q"
proof (cases q)
  case (QuadTree a b c d)
  show ?thesis
    unfolding QuadTree depth_unfold using fold_max_ge [of 0] by (simp del: fold_append)
qed

lemma child_depth_ge_0: "0 \<le> child_depth v"
  using depth_ge_1 [of "case v of PyObj q \<Rightarrow> q"] by (cases v) simp_all

lemma fold_child_depths: "0 \<le> m \<Longrightarrow> fold max (child_depths v) m = max m (child_depth v)"
  using depth_ge_1 by (cases v) (simp_all add: max_def)

lemma depth_max:
  "depth (QuadTree a b c d) =
     1 + max (max (child_depth a) (child_depth b)) (max (child_depth c) (child_depth d))"
proof -
  have "fold max (child_depths a @ child_depths b @ child_depths c @ child_depths d) 0
        = max (max (max (max 0 (child_depth a)) (child_depth b)) (child_depth c)) (child_depth d)"
    by (simp add: fold_child_depths)
  then show ?thesis
    using child_depth_ge_0 [of a] by (simp only: depth_unfold) (simp add: max_def)
qed

lemma spec_depth_4:
  "spec_depth (PyList [a, b, c, d]) =
     1 + max (max (spec_depth a) (spec_depth b)) (max (spec_depth c) (spec_depth d))"
proof -
  have "1 \<le> spec_depth a"
    using fold_max_ge [of 0] by (cases a) simp_all
  then show ?thesis by (simp add: max_def)
qed

lemma max4_pred:
  "max (max (a - 1) (b - 1)) (max (c - 1) (d - 1)) = max (max a b) (max c d) - (1::int)"
  by linarith

lemma wf_seq_is_list: "wf_seq v \<Longrightarrow> is_list v"
  by (cases v) simp_all

text \<open>
  The induction behind the depth of a built tree: a leaf gives \<open>None\<close>, which counts 0,
  a group gives a node, and both are one less than the depth by the rule of the
  specification.
\<close>

lemma built_depth_aux:
  "leaf01 S \<or> wf_seq S \<Longrightarrow> scalar_first_flat S \<Longrightarrow>
     \<exists>t. from_list S = Inr t \<and> (is_list S \<longrightarrow> (\<exists>q. t = PyObj q)) \<and>
         child_depth t = spec_depth S - 1"
proof (induction S rule: from_list.induct)
  case (1 data)
  from "1.prems" have wf: "wf_seq (PyList data)" by (simp add: leaf01_def)
  then have "length data = 4" by simp
  then obtain a b c d where data: "data = [a, b, c, d]" using len4 by blast
  show ?case
  proof (cases "is_list a")
    case True
    have "\<exists>t. from_list x = Inr t \<and> child_depth t = spec_depth x - 1" if "x \<in> set data" for x
    proof -
      from wf that have "leaf01 x \<or> wf_seq x" by (simp add: list_all_iff)
      moreover from "1.prems"(2) that have "scalar_first_flat x" by (simp add: list_all_iff)
      ultimately show ?thesis using "1.IH" [OF data True that] by blast
    qed
    then obtain ta tb tc td where
      "from_list a = Inr ta \<and> child_depth ta = spec_depth a - 1"
      "from_list b = Inr tb \<and> child_depth tb = spec_depth b - 1"
      "from_list c = Inr tc \<and> child_depth tc = spec_depth c - 1"
      "from_list d = Inr td \<and> child_depth td = spec_depth d - 1"
      unfolding data by (metis list.set_intros)
    then show ?thesis unfolding data
      by (simp add: from_list_list_first [OF True] depth_max spec_depth_4 max4_pred
            del: spec_depth.simps(1))
  next
    case False
    with "1.prems"(2) have "list_all (\<lambda>x. \<not> is_list x) data" unfolding data by simp
    with wf have "list_all leaf01 data" by (auto simp: list_all_iff dest: wf_seq_is_list)
    then show ?thesis unfolding data
      by (auto simp: from_list_scalar_first [OF False] depth_max spec_depth_4 leaf01_def
            simp del: spec_depth.simps(1))
  qed
qed (simp_all add: leaf01_def)


section \<open>Properties\<close>

text \<open>
  C1: for the input \<open>[0,1,1,0]\<close>, one group of four leaf values, \<open>from_list\<close> returns
  the node that holds the four values, and the depth of this node is 1: \<open>depths\<close> stays
  \<open>[0]\<close>, because no field is a \<open>QuadTree\<close>.
\<close>

theorem from_list_0110_depth_1:
  "from_list (PyList [PyInt 0, PyInt 1, PyInt 1, PyInt 0])
     = Inr (PyObj (QuadTree (PyInt 0) (PyInt 1) (PyInt 1) (PyInt 0)))
   \<and> depth (QuadTree (PyInt 0) (PyInt 1) (PyInt 1) (PyInt 0)) = 1"
  by (simp add: from_list_scalar_first depth_max)

text \<open>The depth of the tree built from \<open>[0,1,1,0]\<close> is not 2.\<close>

theorem from_list_0110_depth_not_2:
  "from_list (PyList [PyInt 0, PyInt 1, PyInt 1, PyInt 0])
     = Inr (PyObj (QuadTree (PyInt 0) (PyInt 1) (PyInt 1) (PyInt 0)))
   \<and> depth (QuadTree (PyInt 0) (PyInt 1) (PyInt 1) (PyInt 0)) \<noteq> 2"
  by (simp add: from_list_scalar_first depth_max)

text \<open>
  C2: for every well-formed nested sequence \<open>S\<close> (every group has exactly four elements,
  the leaves are 0 or 1) in which no group that starts with a leaf holds a nested group,
  \<open>from_list(S)\<close> returns a tree, and the depth of the tree is \<open>d - 1\<close>, where \<open>d\<close> is
  the depth of \<open>S\<close> by the rule "a leaf alone has depth 1, a group has depth 1 + the
  maximum of its elements": the code counts the levels of nodes, and a leaf is a plain
  value that adds no level.
\<close>

theorem from_list_depth:
  assumes "wf_seq S" and "scalar_first_flat S"
  shows "\<exists>q. from_list S = Inr (PyObj q) \<and> depth q = spec_depth S - 1"
proof -
  from built_depth_aux [of S] assms wf_seq_is_list [of S]
  obtain t q where "from_list S = Inr t" "t = PyObj q" "child_depth t = spec_depth S - 1"
    by blast
  then show ?thesis by simp
qed

text \<open>The theorem at the example of the specification: its tree has depth 2 = 3 - 1.\<close>

theorem from_list_depth_witness:
  "wf_seq spec_example \<and> scalar_first_flat spec_example \<and> spec_depth spec_example = 3 \<and>
   (\<exists>q. from_list spec_example = Inr (PyObj q) \<and> depth q = 2)"
proof -
  have h: "wf_seq spec_example" "scalar_first_flat spec_example" "spec_depth spec_example = 3"
    by (simp_all add: spec_example_def leaf01_def)
  show ?thesis using h from_list_depth [OF h(1) h(2)] by simp
qed

text \<open>
  The depth is not the one of the rule of the specification: \<open>[0,1,1,0]\<close> is well
  formed and has depth 2 by the rule, and its tree has depth 1. A group that starts with
  a leaf keeps a nested group as it is, so that \<open>[0,[0,0,0,0],0,0]\<close>, of depth 3 by the
  rule, gives a tree of depth 1 as well.
\<close>

theorem from_list_depth_counterexample:
  "wf_seq (PyList [PyInt 0, PyInt 1, PyInt 1, PyInt 0])
   \<and> spec_depth (PyList [PyInt 0, PyInt 1, PyInt 1, PyInt 0]) = 2
   \<and> from_list (PyList [PyInt 0, PyInt 1, PyInt 1, PyInt 0])
       = Inr (PyObj (QuadTree (PyInt 0) (PyInt 1) (PyInt 1) (PyInt 0)))
   \<and> depth (QuadTree (PyInt 0) (PyInt 1) (PyInt 1) (PyInt 0)) = 1
   \<and> wf_seq (PyList [PyInt 0, PyList [PyInt 0, PyInt 0, PyInt 0, PyInt 0], PyInt 0, PyInt 0])
   \<and> spec_depth (PyList [PyInt 0, PyList [PyInt 0, PyInt 0, PyInt 0, PyInt 0], PyInt 0, PyInt 0]) = 3
   \<and> from_list (PyList [PyInt 0, PyList [PyInt 0, PyInt 0, PyInt 0, PyInt 0], PyInt 0, PyInt 0])
       = Inr (PyObj (QuadTree (PyInt 0) (PyList [PyInt 0, PyInt 0, PyInt 0, PyInt 0])
                              (PyInt 0) (PyInt 0)))
   \<and> depth (QuadTree (PyInt 0) (PyList [PyInt 0, PyInt 0, PyInt 0, PyInt 0])
                      (PyInt 0) (PyInt 0)) = 1"
  by (simp add: from_list_scalar_first depth_max leaf01_def)

text \<open>
  C3: the traversal of \<open>draw\<close> at the example of the specification, on the canvas of 400
  by 400. It creates exactly 16 rectangles, each of 100 by 100, and raises nothing. The
  four children of a list are drawn at the top left, the top right, the bottom left and
  the bottom right, in this order: the third group \<open>[1,1,0,0]\<close> (index 2, the field
  \<open>bd\<close>, bottom right, of \<open>from_list\<close>) fills the square whose origin is \<open>(0, 200)\<close>,
  at the bottom left, and the fourth group \<open>[0,1,1,0]\<close> (index 3, the field \<open>bg\<close>) the
  square whose origin is \<open>(200, 200)\<close>, at the bottom right; inside each group the
  element of index 2 comes below the first one and the element of index 3 after it.
\<close>

theorem draw_spec_example:
  "TkQuadTree_init spec_example = (None,
     [\<lparr>rect_x1 = 0, rect_y1 = 0, rect_x2 = 100, rect_y2 = 100, rect_fill = ''black''\<rparr>,
      \<lparr>rect_x1 = 100, rect_y1 = 0, rect_x2 = 200, rect_y2 = 100, rect_fill = ''lightgrey''\<rparr>,
      \<lparr>rect_x1 = 0, rect_y1 = 100, rect_x2 = 100, rect_y2 = 200, rect_fill = ''lightgrey''\<rparr>,
      \<lparr>rect_x1 = 100, rect_y1 = 100, rect_x2 = 200, rect_y2 = 200, rect_fill = ''black''\<rparr>,
      \<lparr>rect_x1 = 200, rect_y1 = 0, rect_x2 = 300, rect_y2 = 100, rect_fill = ''lightgrey''\<rparr>,
      \<lparr>rect_x1 = 300, rect_y1 = 0, rect_x2 = 400, rect_y2 = 100, rect_fill = ''lightgrey''\<rparr>,
      \<lparr>rect_x1 = 200, rect_y1 = 100, rect_x2 = 300, rect_y2 = 200, rect_fill = ''black''\<rparr>,
      \<lparr>rect_x1 = 300, rect_y1 = 100, rect_x2 = 400, rect_y2 = 200, rect_fill = ''lightgrey''\<rparr>,
      \<lparr>rect_x1 = 0, rect_y1 = 200, rect_x2 = 100, rect_y2 = 300, rect_fill = ''black''\<rparr>,
      \<lparr>rect_x1 = 100, rect_y1 = 200, rect_x2 = 200, rect_y2 = 300, rect_fill = ''black''\<rparr>,
      \<lparr>rect_x1 = 0, rect_y1 = 300, rect_x2 = 100, rect_y2 = 400, rect_fill = ''lightgrey''\<rparr>,
      \<lparr>rect_x1 = 100, rect_y1 = 300, rect_x2 = 200, rect_y2 = 400, rect_fill = ''lightgrey''\<rparr>,
      \<lparr>rect_x1 = 200, rect_y1 = 200, rect_x2 = 300, rect_y2 = 300, rect_fill = ''lightgrey''\<rparr>,
      \<lparr>rect_x1 = 300, rect_y1 = 200, rect_x2 = 400, rect_y2 = 300, rect_fill = ''black''\<rparr>,
      \<lparr>rect_x1 = 200, rect_y1 = 300, rect_x2 = 300, rect_y2 = 400, rect_fill = ''black''\<rparr>,
      \<lparr>rect_x1 = 300, rect_y1 = 300, rect_x2 = 400, rect_y2 = 400, rect_fill = ''lightgrey''\<rparr>])"
  by (simp add: TkQuadTree_init_def spec_example_def and_then_def create_rectangle_def)

text \<open>
  The same on one group: in \<open>[0,0,1,0]\<close> the only dark leaf has index 2; \<open>from_list\<close>
  stores it in the field \<open>bd\<close> (bottom right), and \<open>draw\<close> paints it at the bottom left.
\<close>

lemma draw_index_2_bottom_left:
  "from_list (PyList [PyInt 0, PyInt 0, PyInt 1, PyInt 0])
     = Inr (PyObj (QuadTree (PyInt 0) (PyInt 0) (PyInt 1) (PyInt 0)))
   \<and> bd (QuadTree (PyInt 0) (PyInt 0) (PyInt 1) (PyInt 0)) = PyInt 1
   \<and> TkQuadTree_init (PyList [PyInt 0, PyInt 0, PyInt 1, PyInt 0]) = (None,
     [\<lparr>rect_x1 = 0, rect_y1 = 0, rect_x2 = 200, rect_y2 = 200, rect_fill = ''lightgrey''\<rparr>,
      \<lparr>rect_x1 = 200, rect_y1 = 0, rect_x2 = 400, rect_y2 = 200, rect_fill = ''lightgrey''\<rparr>,
      \<lparr>rect_x1 = 0, rect_y1 = 200, rect_x2 = 200, rect_y2 = 400, rect_fill = ''black''\<rparr>,
      \<lparr>rect_x1 = 200, rect_y1 = 200, rect_x2 = 400, rect_y2 = 400, rect_fill = ''lightgrey''\<rparr>])"
  by (simp add: from_list_scalar_first TkQuadTree_init_def and_then_def create_rectangle_def)

text \<open>
  C4: for every input in which \<open>from_list\<close> reaches a group with fewer or more than four
  elements (the input itself, or a group reached in an element of a reached group that
  starts with a list), \<open>from_list\<close> returns no tree: it raises one of the built-in
  exceptions \<open>IndexError\<close> (an empty group), \<open>TypeError\<close> (a group that starts with a
  scalar) or \<open>ValueError\<close> (a group that starts with a list). By \<open>from_list_raises_iff\<close>
  these are the only inputs on which it raises: a group of the wrong length among the
  elements of a group that starts with a scalar is stored as it is.
\<close>

theorem from_list_bad_group_raises:
  assumes "reached_bad S"
  shows "from_list S = Inl IndexError \<or> from_list S = Inl TypeError
         \<or> from_list S = Inl ValueError"
proof -
  from assms from_list_raises_iff [of S] obtain e where e: "from_list S = Inl e" by blast
  with from_list_error_kinds [OF e] show ?thesis by auto
qed

text \<open>
  The theorem at \<open>[0,[1,0,1],0]\<close>, a group of three that starts with a scalar, and at
  \<open>[[0,0,0,0],[0,0,0],[0,0,0,0],[0,0,0,0]]\<close>, where the group of three is the second
  element: \<open>TypeError\<close> both times.
\<close>

theorem from_list_bad_group_raises_witness:
  "reached_bad (PyList [PyInt 0, PyList [PyInt 1, PyInt 0, PyInt 1], PyInt 0])
   \<and> from_list (PyList [PyInt 0, PyList [PyInt 1, PyInt 0, PyInt 1], PyInt 0]) = Inl TypeError
   \<and> reached_bad (PyList [PyList [PyInt 0, PyInt 0, PyInt 0, PyInt 0],
                          PyList [PyInt 0, PyInt 0, PyInt 0],
                          PyList [PyInt 0, PyInt 0, PyInt 0, PyInt 0],
                          PyList [PyInt 0, PyInt 0, PyInt 0, PyInt 0]])
   \<and> from_list (PyList [PyList [PyInt 0, PyInt 0, PyInt 0, PyInt 0],
                        PyList [PyInt 0, PyInt 0, PyInt 0],
                        PyList [PyInt 0, PyInt 0, PyInt 0, PyInt 0],
                        PyList [PyInt 0, PyInt 0, PyInt 0, PyInt 0]]) = Inl TypeError"
proof -
  let ?S1 = "PyList [PyInt 0, PyList [PyInt 1, PyInt 0, PyInt 1], PyInt 0]"
  let ?S2 = "PyList [PyList [PyInt 0, PyInt 0, PyInt 0, PyInt 0],
                     PyList [PyInt 0, PyInt 0, PyInt 0],
                     PyList [PyInt 0, PyInt 0, PyInt 0, PyInt 0],
                     PyList [PyInt 0, PyInt 0, PyInt 0, PyInt 0]]"
  have h: "reached_bad ?S1" "reached_bad ?S2" by simp_all
  have n: "from_list ?S1 \<noteq> Inl IndexError" "from_list ?S1 \<noteq> Inl ValueError"
          "from_list ?S2 \<noteq> Inl IndexError" "from_list ?S2 \<noteq> Inl ValueError"
    by (simp_all add: from_list.simps(1) unpack4_def new_QuadTree_def numeral_eq_Suc)
  from h n from_list_bad_group_raises [OF h(1)] from_list_bad_group_raises [OF h(2)]
  show ?thesis by auto
qed

text \<open>
  A group of the wrong length that follows a scalar is not looked at: \<open>[0,[1,0,1],0,0]\<close>
  gives a tree that holds the list \<open>[1,0,1]\<close> as its second child.
\<close>

theorem from_list_bad_group_counterexample:
  "has_bad_group (PyList [PyInt 0, PyList [PyInt 1, PyInt 0, PyInt 1], PyInt 0, PyInt 0])
   \<and> from_list (PyList [PyInt 0, PyList [PyInt 1, PyInt 0, PyInt 1], PyInt 0, PyInt 0])
       = Inr (PyObj (QuadTree (PyInt 0) (PyList [PyInt 1, PyInt 0, PyInt 1])
                              (PyInt 0) (PyInt 0)))"
  by (simp add: from_list_scalar_first)

text \<open>
  C5: \<open>from_list\<close> never looks at the value of a leaf. For every input list on which it
  reaches no group with fewer or more than four elements, so in particular for every
  input list whose groups all have exactly four elements (\<open>reached_bad_has_bad_group\<close>),
  it returns a tree, whatever values the leaf positions hold.
\<close>

theorem from_list_leaf_values_unchecked:
  assumes "is_list S" and "\<not> reached_bad S"
  shows "\<exists>q. from_list S = Inr (PyObj q)"
  using from_list_returns [OF assms(2)] assms(1) by blast

text \<open>
  The theorem at \<open>[[2,3,4,5],[0,0,0,0],[7,7,7,7],[-1,0,0,0]]\<close> and at
  \<open>[0,[2,2,2,2],0,0]\<close>.
\<close>

theorem from_list_leaf_values_unchecked_witness:
  "is_list (PyList [PyList [PyInt 2, PyInt 3, PyInt 4, PyInt 5],
                    PyList [PyInt 0, PyInt 0, PyInt 0, PyInt 0],
                    PyList [PyInt 7, PyInt 7, PyInt 7, PyInt 7],
                    PyList [PyInt (- 1), PyInt 0, PyInt 0, PyInt 0]])
   \<and> \<not> reached_bad (PyList [PyList [PyInt 2, PyInt 3, PyInt 4, PyInt 5],
                            PyList [PyInt 0, PyInt 0, PyInt 0, PyInt 0],
                            PyList [PyInt 7, PyInt 7, PyInt 7, PyInt 7],
                            PyList [PyInt (- 1), PyInt 0, PyInt 0, PyInt 0]])
   \<and> (\<exists>q. from_list (PyList [PyList [PyInt 2, PyInt 3, PyInt 4, PyInt 5],
                              PyList [PyInt 0, PyInt 0, PyInt 0, PyInt 0],
                              PyList [PyInt 7, PyInt 7, PyInt 7, PyInt 7],
                              PyList [PyInt (- 1), PyInt 0, PyInt 0, PyInt 0]])
          = Inr (PyObj q))
   \<and> is_list (PyList [PyInt 0, PyList [PyInt 2, PyInt 2, PyInt 2, PyInt 2], PyInt 0, PyInt 0])
   \<and> \<not> reached_bad
         (PyList [PyInt 0, PyList [PyInt 2, PyInt 2, PyInt 2, PyInt 2], PyInt 0, PyInt 0])
   \<and> (\<exists>q. from_list
              (PyList [PyInt 0, PyList [PyInt 2, PyInt 2, PyInt 2, PyInt 2], PyInt 0, PyInt 0])
          = Inr (PyObj q))"
proof -
  let ?S1 = "PyList [PyList [PyInt 2, PyInt 3, PyInt 4, PyInt 5],
                     PyList [PyInt 0, PyInt 0, PyInt 0, PyInt 0],
                     PyList [PyInt 7, PyInt 7, PyInt 7, PyInt 7],
                     PyList [PyInt (- 1), PyInt 0, PyInt 0, PyInt 0]]"
  let ?S2 = "PyList [PyInt 0, PyList [PyInt 2, PyInt 2, PyInt 2, PyInt 2], PyInt 0, PyInt 0]"
  have h1: "is_list ?S1" "\<not> reached_bad ?S1" by simp_all
  have h2: "is_list ?S2" "\<not> reached_bad ?S2" by simp_all
  from h1 h2 from_list_leaf_values_unchecked [OF h1] from_list_leaf_values_unchecked [OF h2]
  show ?thesis by blast
qed

text \<open>
  A leaf that is neither 0 nor 1 raises nothing: \<open>[2,0,0,0]\<close> gives the node that holds
  2, 0, 0 and 0.
\<close>

theorem from_list_leaf_value_counterexample:
  "\<not> leaf01 (PyInt 2)
   \<and> from_list (PyList [PyInt 2, PyInt 0, PyInt 0, PyInt 0])
       = Inr (PyObj (QuadTree (PyInt 2) (PyInt 0) (PyInt 0) (PyInt 0)))"
  by (simp add: from_list_scalar_first leaf01_def)

text \<open>
  C6: \<open>from_file\<close> ignores its parameter \<open>filename\<close>. For any two arguments it opens the
  same path, the fixed \<open>../files/quadtree-easy.txt\<close> under the directory \<open>files\<close> of
  the parent of the module's directory, and gives the same result.
\<close>

theorem from_file_ignores_filename:
  "from_file E filename1 = from_file E filename2
   \<and> snd (from_file E filename1) =
       [os_path_join
          (abspath E (os_path_join (dirname E (abspath E (module_file E))) [''..'']))
          [''files'', ''../files/quadtree-easy.txt'']]"
  by (simp add: from_file_def Let_def)




text \<open>
  C8: on a list of four elements, the type of the first element alone selects the
  branch of \<open>from_list\<close>. When it is a list, \<open>from_list\<close> is called on each of the four
  elements, from the first to the last, and the four results become the children
  \<open>hg\<close>, \<open>hd\<close>, \<open>bd\<close>, \<open>bg\<close> of the new node, in this order (the first call that raises
  ends the construction). When it is not a list, the four elements themselves become
  the four children, in this order.
\<close>

theorem from_list_first_element_decides:
  "(is_list a \<longrightarrow>
      from_list (PyList [a, b, c, d]) =
        (case from_list a of Inl e \<Rightarrow> Inl e | Inr ta \<Rightarrow>
          (case from_list b of Inl e \<Rightarrow> Inl e | Inr tb \<Rightarrow>
            (case from_list c of Inl e \<Rightarrow> Inl e | Inr tc \<Rightarrow>
              (case from_list d of Inl e \<Rightarrow> Inl e | Inr td \<Rightarrow>
                 Inr (PyObj (QuadTree ta tb tc td)))))))
   \<and> (\<not> is_list a \<longrightarrow>
      from_list (PyList [a, b, c, d]) = Inr (PyObj (QuadTree a b c d)))"
  using from_list_list_first [of a b c d] from_list_scalar_first [of a b c d] by blast

text \<open>
  The theorem at \<open>[[1,0,0,1],[0,0,1,0],[1,1,0,0],[0,1,1,0]]\<close>, which starts with a list,
  and at \<open>[0,[1,1,1,1],1,0]\<close>, which starts with a scalar.
\<close>

theorem from_list_first_element_decides_witness:
  "is_list (PyList [PyInt 1, PyInt 0, PyInt 0, PyInt 1])
   \<and> from_list (PyList [PyList [PyInt 1, PyInt 0, PyInt 0, PyInt 1],
                        PyList [PyInt 0, PyInt 0, PyInt 1, PyInt 0],
                        PyList [PyInt 1, PyInt 1, PyInt 0, PyInt 0],
                        PyList [PyInt 0, PyInt 1, PyInt 1, PyInt 0]])
       = Inr (PyObj (QuadTree (PyObj (QuadTree (PyInt 1) (PyInt 0) (PyInt 0) (PyInt 1)))
                              (PyObj (QuadTree (PyInt 0) (PyInt 0) (PyInt 1) (PyInt 0)))
                              (PyObj (QuadTree (PyInt 1) (PyInt 1) (PyInt 0) (PyInt 0)))
                              (PyObj (QuadTree (PyInt 0) (PyInt 1) (PyInt 1) (PyInt 0)))))
   \<and> \<not> is_list (PyInt 0)
   \<and> from_list (PyList [PyInt 0, PyList [PyInt 1, PyInt 1, PyInt 1, PyInt 1], PyInt 1, PyInt 0])
       = Inr (PyObj (QuadTree (PyInt 0) (PyList [PyInt 1, PyInt 1, PyInt 1, PyInt 1])
                              (PyInt 1) (PyInt 0)))"
proof -
  have s: "from_list (PyList [PyInt x, PyInt y, PyInt z, PyInt w])
             = Inr (PyObj (QuadTree (PyInt x) (PyInt y) (PyInt z) (PyInt w)))" for x y z w
    by (simp add: from_list.simps(1) new_QuadTree_def)
  show ?thesis
    using from_list_first_element_decides
            [of "PyList [PyInt 1, PyInt 0, PyInt 0, PyInt 1]"
                "PyList [PyInt 0, PyInt 0, PyInt 1, PyInt 0]"
                "PyList [PyInt 1, PyInt 1, PyInt 0, PyInt 0]"
                "PyList [PyInt 0, PyInt 1, PyInt 1, PyInt 0]"]
          from_list_first_element_decides
            [of "PyInt 0" "PyList [PyInt 1, PyInt 1, PyInt 1, PyInt 1]" "PyInt 1" "PyInt 0"]
    by (simp add: s)
qed

text \<open>
  C9: \<open>from_list\<close> reads \<open>data[0]\<close> of every list it is given without looking at the
  length first, so the empty list \<open>[]\<close> ends in an out-of-range index access
  (\<open>IndexError\<close>): no tree and no other kind of error is produced.
\<close>

theorem from_list_empty_IndexError: "from_list (PyList []) = Inl IndexError"
  by (simp add: from_list.simps(1))

text \<open>
  C10: for every input that is not a list, \<open>from_list\<close> returns \<open>None\<close>: no tree and no
  error. So, in a group that starts with a list, the call on a sibling that is a scalar
  returns \<open>None\<close>, and when the calls on the four elements all return, the new node has
  \<open>None\<close> in the place of every such sibling.
\<close>

theorem from_list_not_a_list_None:
  "(\<not> is_list v \<longrightarrow> from_list v = Inr PyNone)
   \<and> (is_list a \<and> from_list a = Inr ta \<and> from_list b = Inr tb
        \<and> from_list c = Inr tc \<and> from_list d = Inr td \<longrightarrow>
      from_list (PyList [a, b, c, d]) = Inr (PyObj (QuadTree ta tb tc td))
      \<and> (\<not> is_list b \<longrightarrow> tb = PyNone)
      \<and> (\<not> is_list c \<longrightarrow> tc = PyNone)
      \<and> (\<not> is_list d \<longrightarrow> td = PyNone))"
proof -
  have "from_list (PyList [a, b, c, d]) = Inr (PyObj (QuadTree ta tb tc td))"
    if "is_list a" "from_list a = Inr ta" "from_list b = Inr tb"
       "from_list c = Inr tc" "from_list d = Inr td"
    using that by (simp add: from_list_list_first)
  moreover have "t = PyNone" if "\<not> is_list x" "from_list x = Inr t" for x t
    using that from_list_not_list [of x] by simp
  ultimately show ?thesis using from_list_not_list [of v] by blast
qed

text \<open>
  The theorem at the bare integer 5 and at \<open>[[0,0,0,0],1,[1,1,1,1],0]\<close>: the second and
  the fourth child of the node are \<open>None\<close>.
\<close>

theorem from_list_not_a_list_None_witness:
  "\<not> is_list (PyInt 5) \<and> from_list (PyInt 5) = Inr PyNone
   \<and> is_list (PyList [PyInt 0, PyInt 0, PyInt 0, PyInt 0])
   \<and> \<not> is_list (PyInt 1) \<and> \<not> is_list (PyInt 0)
   \<and> from_list (PyList [PyList [PyInt 0, PyInt 0, PyInt 0, PyInt 0], PyInt 1,
                        PyList [PyInt 1, PyInt 1, PyInt 1, PyInt 1], PyInt 0])
       = Inr (PyObj (QuadTree (PyObj (QuadTree (PyInt 0) (PyInt 0) (PyInt 0) (PyInt 0)))
                              PyNone
                              (PyObj (QuadTree (PyInt 1) (PyInt 1) (PyInt 1) (PyInt 1)))
                              PyNone))"
proof -
  have s: "from_list (PyList [PyInt x, PyInt y, PyInt z, PyInt w])
             = Inr (PyObj (QuadTree (PyInt x) (PyInt y) (PyInt z) (PyInt w)))" for x y z w
    by (simp add: from_list.simps(1) new_QuadTree_def)
  show ?thesis
    using from_list_not_a_list_None
            [where v = "PyInt 5"
               and a = "PyList [PyInt 0, PyInt 0, PyInt 0, PyInt 0]"
               and ta = "PyObj (QuadTree (PyInt 0) (PyInt 0) (PyInt 0) (PyInt 0))"
               and b = "PyInt 1" and tb = PyNone
               and c = "PyList [PyInt 1, PyInt 1, PyInt 1, PyInt 1]"
               and tc = "PyObj (QuadTree (PyInt 1) (PyInt 1) (PyInt 1) (PyInt 1))"
               and d = "PyInt 0" and td = PyNone]
    by (simp add: s)
qed

end
